theory Spec2Isabelle
  imports Main
begin

section \<open>The Ansible Galaxy provider of ansible-requirements-lint\<close>

text \<open>
  A shallow embedding of \<^verbatim>\<open>provider/galaxy.go\<close>. Go strings are byte sequences and
  are modelled as \<^typ>\<open>string\<close>; Go's \<^verbatim>\<open>int\<close> is only compared here and is
  modelled as \<^typ>\<open>int\<close>. A Go result pair \<^verbatim>\<open>(value, error)\<close> is a sum with the
  error on the left.
\<close>

subsection \<open>Data\<close>

text \<open>
  Modelled from the spec: the type \<^verbatim>\<open>requirements.Role\<close> is declared in a package
  that is not part of the sources at hand. \<^verbatim>\<open>VersionsForRole\<close> reads its string
  fields \<^verbatim>\<open>Source\<close> and \<^verbatim>\<open>Name\<close>; the field \<open>Version\<close> is the declared version
  of the spec's dependency reference. An absent source is the empty string.
\<close>

record Role =
  Source :: string
  Name :: string
  Version :: string

text \<open>The constant and the struct of lines 16 to 26.\<close>

definition DefaultAnsibleGalaxyURL :: string where
  "DefaultAnsibleGalaxyURL = ''https://galaxy.ansible.com''"

record AnsibleGalaxy =
  baseURL :: string

text \<open>
  The errors \<^verbatim>\<open>VersionsForRole\<close> returns: the two it builds itself with
  \<^verbatim>\<open>fmt.Errorf\<close> (lines 87 and 128), kept with the value they format, and the errors
  handed over unchanged from the standard library.
\<close>

datatype error =
    LibraryError string
  | UnexpectedResponseCode int
  | UnableToFindRole string

text \<open>
  The request of lines 47 and 67 to 78. Its URL is what \<^verbatim>\<open>url.Parse\<close> makes of a
  string, with the \<^verbatim>\<open>RawQuery\<close> of the result replaced by the encoding of
  \<^verbatim>\<open>params\<close> (line 70). Parsing and encoding are the library's, so the request
  keeps the two inputs: \<open>rawURL\<close>, the string given to \<^verbatim>\<open>url.Parse\<close>, and
  \<open>params\<close>, the values before \<^verbatim>\<open>params.Encode\<close>. The field \<open>rawURL\<close> is not
  the URL on the wire: a query or a fragment that the string already holds is parsed as
  such, together with what follows it, and line 70 then drops the query.
\<close>

record Request =
  Method :: string
  rawURL :: string
  params :: "(string \<times> string) list"
  Header :: "(string \<times> string) list"

text \<open>
  What the function reads of an \<^verbatim>\<open>http.Response\<close>: the status code, and what
  \<^verbatim>\<open>ioutil.ReadAll\<close> makes of the body.
\<close>

record Response =
  StatusCode :: int
  Body :: "error + string"

text \<open>The decoding target of lines 95 to 109.\<close>

record galaxyVersion =
  version_Name :: string

record galaxyNamespace =
  namespace_Name :: string

record summaryFields =
  Versions :: "galaxyVersion list"
  Namespace :: galaxyNamespace

record galaxyResult =
  SummaryFields :: summaryFields

record searchResults =
  Count :: int
  Results :: "galaxyResult list"

text \<open>
  The calls into Go's standard library whose outcome depends on the network and on the
  bytes received are parameters of the model: \<^verbatim>\<open>url.Parse\<close> and
  \<^verbatim>\<open>http.NewRequestWithContext\<close> (only whether they fail), \<^verbatim>\<open>client.Do\<close> with
  its ten seconds timeout and the context, and \<^verbatim>\<open>json.Unmarshal\<close> into the struct
  above.
\<close>

record stdlib =
  url_Parse :: "string \<Rightarrow> error option"
  http_NewRequestWithContext :: "Request \<Rightarrow> error option"
  client_Do :: "Request \<Rightarrow> error + Response"
  json_Unmarshal :: "string \<Rightarrow> error + searchResults"

subsection \<open>The constructor\<close>

definition NewAnsibleGalaxy :: "string \<Rightarrow> AnsibleGalaxy" where
  "NewAnsibleGalaxy u =
     (if u = [] then \<lparr>baseURL = DefaultAnsibleGalaxyURL\<rparr> else \<lparr>baseURL = u\<rparr>)"

subsection \<open>The steps of VersionsForRole\<close>

text \<open>Lines 52 to 58: the keywords of the search.\<close>

definition keywords_of :: "Role \<Rightarrow> string" where
  "keywords_of r = (if length (Source r) \<noteq> 0 then Source r else Name r)"

text \<open>
  \<^verbatim>\<open>strings.Split(s, sep)\<close> of Go's standard library for a separator of one byte,
  which is how line 62 calls it: the substrings between the separators, in order; a
  string without the separator, the empty one too, gives a slice of length one holding
  the string itself.
\<close>

fun strings_Split :: "string \<Rightarrow> char \<Rightarrow> string list" where
  "strings_Split [] sep = [[]]"
| "strings_Split (c # s) sep =
     (if c = sep then [] # strings_Split s sep
      else (case strings_Split s sep of
              [] \<Rightarrow> [[c]]
            | x # xs \<Rightarrow> (c # x) # xs))"

text \<open>Lines 61 to 65: the namespace the results are filtered with.\<close>

definition namespace_of :: "string \<Rightarrow> string" where
  "namespace_of keywords =
     (let split = strings_Split keywords (CHR ''.'')
      in if length split > 0 then split ! 0 else [])"

text \<open>
  Lines 47 and 67 to 78: the request built for the role, which is the one handed to
  \<^verbatim>\<open>client.Do\<close>.
\<close>

definition search_request :: "AnsibleGalaxy \<Rightarrow> Role \<Rightarrow> Request" where
  "search_request g r =
     \<lparr>Method = ''GET'',
      rawURL = baseURL g @ ''/api/v1/search/roles/'',
      params = [(''keywords'', keywords_of r)],
      Header = [(''User-Agent'', ''ansible-requirements-lint''),
                (''Accept'', ''application/json'')]\<rparr>"

text \<open>
  Lines 44 to 113: the exchange with the registry, up to the decoded document. The test
  of the status code is the source's, a conjunction.
\<close>

definition fetch_results :: "stdlib \<Rightarrow> AnsibleGalaxy \<Rightarrow> Role \<Rightarrow> error + searchResults" where
  "fetch_results lib g r =
     (case url_Parse lib (baseURL g @ ''/api/v1/search/roles/'') of
        Some err \<Rightarrow> Inl err
      | None \<Rightarrow>
     (case http_NewRequestWithContext lib (search_request g r) of
        Some err \<Rightarrow> Inl err
      | None \<Rightarrow>
     (case client_Do lib (search_request g r) of
        Inl err \<Rightarrow> Inl err
      | Inr resp \<Rightarrow>
     if StatusCode resp < 200 \<and> StatusCode resp \<ge> 300
     then Inl (UnexpectedResponseCode (StatusCode resp))
     else
     (case Body resp of
        Inl err \<Rightarrow> Inl err
      | Inr body \<Rightarrow>
     (case json_Unmarshal lib body of
        Inl err \<Rightarrow> Inl err
      | Inr results \<Rightarrow> Inr results)))))"

text \<open>Lines 120 to 125: the scan for the namespace, stopping at the first hit.\<close>

fun scan_namespace :: "galaxyResult list \<Rightarrow> string \<Rightarrow> galaxyResult option" where
  "scan_namespace [] namespace = None"
| "scan_namespace (r # rs) namespace =
     (if namespace_Name (Namespace (SummaryFields r)) = namespace then Some r
      else scan_namespace rs namespace)"

text \<open>Lines 116 to 126: the best match; \<open>None\<close> is the nil pointer.\<close>

definition best_match :: "galaxyResult list \<Rightarrow> string \<Rightarrow> galaxyResult option" where
  "best_match results namespace =
     (if length results = 1 then Some (results ! 0)
      else scan_namespace results namespace)"

text \<open>
  Lines 132 to 135: a slice of empty strings of the length of the version list, filled
  index by index.
\<close>

fun fill_versions :: "nat \<Rightarrow> galaxyVersion list \<Rightarrow> string list \<Rightarrow> string list" where
  "fill_versions i [] versions = versions"
| "fill_versions i (v # vs) versions =
     fill_versions (Suc i) vs (versions[i := version_Name v])"

definition version_names :: "galaxyResult \<Rightarrow> string list" where
  "version_names matching =
     fill_versions 0 (Versions (SummaryFields matching))
       (replicate (length (Versions (SummaryFields matching))) [])"

subsection \<open>VersionsForRole\<close>

definition VersionsForRole :: "stdlib \<Rightarrow> AnsibleGalaxy \<Rightarrow> Role \<Rightarrow> error + string list" where
  "VersionsForRole lib g r =
     (case fetch_results lib g r of
        Inl err \<Rightarrow> Inl err
      | Inr results \<Rightarrow>
     (case best_match (Results results) (namespace_of (keywords_of r)) of
        None \<Rightarrow> Inl (UnableToFindRole (keywords_of r))
      | Some matching \<Rightarrow> Inr (version_names matching)))"

subsection \<open>The resolver\<close>

text \<open>
  Modelled from the spec: the caller of \<^verbatim>\<open>VersionsForRole\<close> (the resolver, with its
  result type) is not part of the sources at hand. Following the spec's algorithm, a
  failed lookup or an empty version list is \<open>Unresolved\<close> with no latest version;
  otherwise the first element of the list is the latest version, compared with the
  declared one by string equality. Keyword, namespace and choice of the entry (the
  spec's steps 1 to 4) are what \<^verbatim>\<open>VersionsForRole\<close> does in the source.
\<close>

datatype Status = UpToDate | Outdated | Unresolved

record ResolutionResult =
  reference :: Role
  latestVersion :: "string option"
  status :: Status

definition resolve :: "stdlib \<Rightarrow> AnsibleGalaxy \<Rightarrow> Role \<Rightarrow> ResolutionResult" where
  "resolve lib g ref =
     (case VersionsForRole lib g ref of
        Inl err \<Rightarrow> \<lparr>reference = ref, latestVersion = None, status = Unresolved\<rparr>
      | Inr [] \<Rightarrow> \<lparr>reference = ref, latestVersion = None, status = Unresolved\<rparr>
      | Inr (latest # older) \<Rightarrow>
          if latest = Version ref
          then \<lparr>reference = ref, latestVersion = Some latest, status = UpToDate\<rparr>
          else \<lparr>reference = ref, latestVersion = Some latest, status = Outdated\<rparr>)"

text \<open>
  Modelled from the spec: one result per declared dependency, each resolved on its own.
\<close>

fun resolve_all :: "stdlib \<Rightarrow> AnsibleGalaxy \<Rightarrow> Role list \<Rightarrow> ResolutionResult list" where
  "resolve_all lib g [] = []"
| "resolve_all lib g (ref # refs) = resolve lib g ref # resolve_all lib g refs"

text \<open>
  A registry for the examples below: every library call succeeds, the answer has the
  given status code and decodes to the given results.
\<close>

definition registry :: "int \<Rightarrow> galaxyResult list \<Rightarrow> stdlib" where
  "registry code rs =
     \<lparr>url_Parse = (\<lambda>u. None),
      http_NewRequestWithContext = (\<lambda>req. None),
      client_Do = (\<lambda>req. Inr \<lparr>StatusCode = code, Body = Inr []\<rparr>),
      json_Unmarshal = (\<lambda>body. Inr \<lparr>Count = int (length rs), Results = rs\<rparr>)\<rparr>"

definition entry :: "string \<Rightarrow> string list \<Rightarrow> galaxyResult" where
  "entry ns vs =
     \<lparr>SummaryFields =
        \<lparr>Versions = map (\<lambda>v. \<lparr>version_Name = v\<rparr>) vs,
         Namespace = \<lparr>namespace_Name = ns\<rparr>\<rparr>\<rparr>"

definition role :: "string \<Rightarrow> string \<Rightarrow> Role" where
  "role n v = \<lparr>Source = [], Name = n, Version = v\<rparr>"

text \<open>
  A transport for the examples below that refuses every request and reports, in its
  error, what it reads in the request it was handed.
\<close>

definition refusing :: "(Request \<Rightarrow> string) \<Rightarrow> stdlib" where
  "refusing f =
     \<lparr>url_Parse = (\<lambda>u. None),
      http_NewRequestWithContext = (\<lambda>req. None),
      client_Do = (\<lambda>req. Inl (LibraryError (f req))),
      json_Unmarshal = (\<lambda>body. Inl (LibraryError []))\<rparr>"

section \<open>Properties\<close>

subsection \<open>Auxiliary facts\<close>

lemma status_test_never_fires: "\<not> ((c::int) < 200 \<and> c \<ge> 300)"
  by arith

lemma fill_versions_take:
  "i + length vs = length acc \<Longrightarrow>
   fill_versions i vs acc = take i acc @ map version_Name vs"
proof (induction vs arbitrary: i acc)
  case Nil
  then show ?case by simp
next
  case (Cons v vs)
  have len: "Suc i + length vs = length (acc[i := version_Name v])"
    using Cons.prems by simp
  have "i < length acc"
    using Cons.prems by simp
  then have "take (Suc i) (acc[i := version_Name v]) = take i acc @ [version_Name v]"
    by (simp add: take_Suc_conv_app_nth)
  with Cons.IH [OF len] show ?case
    by simp
qed

lemma version_names_map:
  "version_names m = map version_Name (Versions (SummaryFields m))"
  unfolding version_names_def
  by (simp add: fill_versions_take)

lemma strings_Split_takeWhile:
  "\<exists>rest. strings_Split s sep = takeWhile (\<lambda>c. c \<noteq> sep) s # rest"
  by (induction s) auto

lemma namespace_of_takeWhile:
  "namespace_of k = takeWhile (\<lambda>c. c \<noteq> CHR ''.'') k"
proof -
  obtain rest where "strings_Split k (CHR ''.'') = takeWhile (\<lambda>c. c \<noteq> CHR ''.'') k # rest"
    using strings_Split_takeWhile by blast
  then show ?thesis
    by (simp add: namespace_of_def)
qed

lemma scan_namespace_none:
  "\<forall>e \<in> set rs. namespace_Name (Namespace (SummaryFields e)) \<noteq> n \<Longrightarrow>
   scan_namespace rs n = None"
  by (induction rs) auto

lemma scan_namespace_first:
  "i < length rs \<Longrightarrow>
   namespace_Name (Namespace (SummaryFields (rs ! i))) = n \<Longrightarrow>
   \<forall>j<i. namespace_Name (Namespace (SummaryFields (rs ! j))) \<noteq> n \<Longrightarrow>
   scan_namespace rs n = Some (rs ! i)"
proof (induction rs arbitrary: i)
  case Nil
  then show ?case by simp
next
  case (Cons e rs)
  show ?case
  proof (cases i)
    case 0
    with Cons.prems show ?thesis by simp
  next
    case (Suc k)
    have head: "namespace_Name (Namespace (SummaryFields e)) \<noteq> n"
      using Cons.prems(3) Suc by auto
    have "k < length rs"
      using Cons.prems(1) Suc by simp
    moreover have "namespace_Name (Namespace (SummaryFields (rs ! k))) = n"
      using Cons.prems(2) Suc by simp
    moreover have "\<forall>j<k. namespace_Name (Namespace (SummaryFields (rs ! j))) \<noteq> n"
    proof (intro allI impI)
      fix j assume "j < k"
      then have "Suc j < i" using Suc by simp
      with Cons.prems(3) show "namespace_Name (Namespace (SummaryFields (rs ! j))) \<noteq> n"
        by fastforce
    qed
    ultimately have "scan_namespace rs n = Some (rs ! k)"
      by (rule Cons.IH)
    with head Suc show ?thesis by simp
  qed
qed

lemma fetch_results_registry:
  "fetch_results (registry code rs) g r = Inr \<lparr>Count = int (length rs), Results = rs\<rparr>"
  by (simp add: fetch_results_def registry_def)

lemma VersionsForRole_registry:
  "VersionsForRole (registry code rs) g r =
     (case best_match rs (namespace_of (keywords_of r)) of
        None \<Rightarrow> Inl (UnableToFindRole (keywords_of r))
      | Some m \<Rightarrow> Inr (map version_Name (Versions (SummaryFields m))))"
  by (simp add: VersionsForRole_def fetch_results_registry version_names_map
        split: option.splits)

lemma entry_fields [simp]:
  "namespace_Name (Namespace (SummaryFields (entry ns vs))) = ns"
  "map version_Name (Versions (SummaryFields (entry ns vs))) = vs"
  by (simp_all add: entry_def comp_def)

lemma role_fields [simp]:
  "Source (role n v) = []" "Name (role n v) = n" "Version (role n v) = v"
  by (simp_all add: role_def)

text \<open>
  A body that cannot be decoded fails the call, whatever the status code: the error of
  \<^verbatim>\<open>json.Unmarshal\<close> is returned as it is (lines 110 to 113).
\<close>

lemma VersionsForRole_decode_error:
  assumes "url_Parse lib (rawURL (search_request g r)) = None"
    and "http_NewRequestWithContext lib (search_request g r) = None"
    and "client_Do lib (search_request g r) = Inr resp"
    and "Body resp = Inr body"
    and "json_Unmarshal lib body = Inl err"
  shows "VersionsForRole lib g r = Inl err"
  using assms
  by (simp add: VersionsForRole_def fetch_results_def search_request_def
        status_test_never_fires)

text \<open>
  Once the URL is parsed and the request built, the exchange is decided by what
  \<^verbatim>\<open>client.Do\<close> answers to the request of the role; no other request is made.
\<close>

lemma fetch_results_client_Do:
  assumes "url_Parse lib (baseURL g @ ''/api/v1/search/roles/'') = None"
    and "http_NewRequestWithContext lib (search_request g r) = None"
  shows "fetch_results lib g r =
           (case client_Do lib (search_request g r) of
              Inl err \<Rightarrow> Inl err
            | Inr resp \<Rightarrow>
                (case Body resp of
                   Inl err \<Rightarrow> Inl err
                 | Inr body \<Rightarrow> json_Unmarshal lib body))"
  using assms
  by (simp add: fetch_results_def status_test_never_fires split: sum.splits)

lemma fetch_results_url_Parse_error:
  assumes "url_Parse lib (baseURL g @ ''/api/v1/search/roles/'') = Some err"
  shows "fetch_results lib g r = Inl err"
  using assms
  by (simp add: fetch_results_def)

subsection \<open>The status code\<close>

text \<open>
  Claim C1. A response whose status code is outside 200 to 299 must fail the call. The
  test of line 86 joins its two comparisons with a conjunction, which no status code
  satisfies: a response with status 500 whose body decodes to one entry gives the
  entry's version list and no error.
\<close>

theorem VersionsForRole_status_500_returns_versions:
  "\<not> (200 \<le> (500::int) \<and> (500::int) \<le> 299) \<and>
   client_Do (registry 500 [entry ''ns'' [''v1.0.0'']])
       (search_request (NewAnsibleGalaxy []) (role ''ns.role'' ''v1.0.0'')) =
     Inr \<lparr>StatusCode = 500, Body = Inr []\<rparr> \<and>
   VersionsForRole (registry 500 [entry ''ns'' [''v1.0.0'']])
       (NewAnsibleGalaxy []) (role ''ns.role'' ''v1.0.0'') = Inr [''v1.0.0'']"
proof (intro conjI)
  show "\<not> (200 \<le> (500::int) \<and> (500::int) \<le> 299)"
    by simp
  show "client_Do (registry 500 [entry ''ns'' [''v1.0.0'']])
          (search_request (NewAnsibleGalaxy []) (role ''ns.role'' ''v1.0.0'')) =
        Inr \<lparr>StatusCode = 500, Body = Inr []\<rparr>"
    by (simp add: registry_def)
  show "VersionsForRole (registry 500 [entry ''ns'' [''v1.0.0'']])
          (NewAnsibleGalaxy []) (role ''ns.role'' ''v1.0.0'') = Inr [''v1.0.0'']"
    by (simp add: VersionsForRole_registry best_match_def)
qed

subsection \<open>Keywords and namespace\<close>

text \<open>
  Claim C6. The keywords of the search sent to the registry are the role's source
  whenever it is not empty, and the role's name otherwise: the request handed to
  \<^verbatim>\<open>client.Do\<close>, whose answer decides the lookup, has this string as the value of
  its only parameter \<open>keywords\<close>.
\<close>

theorem keywords_source_else_name:
  assumes "url_Parse lib (baseURL g @ ''/api/v1/search/roles/'') = None"
    and "req = \<lparr>Method = ''GET'',
                rawURL = baseURL g @ ''/api/v1/search/roles/'',
                params = [(''keywords'', if Source r \<noteq> [] then Source r else Name r)],
                Header = [(''User-Agent'', ''ansible-requirements-lint''),
                          (''Accept'', ''application/json'')]\<rparr>"
    and "http_NewRequestWithContext lib req = None"
  shows "keywords_of r = (if Source r \<noteq> [] then Source r else Name r) \<and>
         fetch_results lib g r =
           (case client_Do lib req of
              Inl err \<Rightarrow> Inl err
            | Inr resp \<Rightarrow>
                (case Body resp of
                   Inl err \<Rightarrow> Inl err
                 | Inr body \<Rightarrow> json_Unmarshal lib body)) \<and>
         (\<forall>err. client_Do lib req = Inl err \<longrightarrow> VersionsForRole lib g r = Inl err)"
proof -
  have kw: "keywords_of r = (if Source r \<noteq> [] then Source r else Name r)"
    by (simp add: keywords_of_def)
  have req: "search_request g r = req"
    using assms(2) by (simp add: search_request_def kw)
  have fetch: "fetch_results lib g r =
           (case client_Do lib req of
              Inl err \<Rightarrow> Inl err
            | Inr resp \<Rightarrow>
                (case Body resp of
                   Inl err \<Rightarrow> Inl err
                 | Inr body \<Rightarrow> json_Unmarshal lib body))"
    using fetch_results_client_Do [of lib g r] assms(1,3) by (simp add: req)
  have "\<forall>err. client_Do lib req = Inl err \<longrightarrow> VersionsForRole lib g r = Inl err"
    by (simp add: VersionsForRole_def fetch)
  with kw fetch show ?thesis
    by blast
qed

theorem keywords_source_else_name_witness:
  "VersionsForRole (refusing (\<lambda>req. concat (map snd (params req)))) (NewAnsibleGalaxy [])
       \<lparr>Source = ''git.example.org/fork.nginx'', Name = ''nginx'', Version = ''1.0''\<rparr> =
     Inl (LibraryError ''git.example.org/fork.nginx'') \<and>
   VersionsForRole (refusing (\<lambda>req. concat (map snd (params req)))) (NewAnsibleGalaxy [])
       \<lparr>Source = [], Name = ''ns.role'', Version = ''1.0''\<rparr> =
     Inl (LibraryError ''ns.role'')"
proof -
  let ?lib = "refusing (\<lambda>req. concat (map snd (params req)))"
  let ?g = "NewAnsibleGalaxy []"
  let ?fork = "\<lparr>Source = ''git.example.org/fork.nginx'', Name = ''nginx'', Version = ''1.0''\<rparr>"
  let ?plain = "\<lparr>Source = [], Name = ''ns.role'', Version = ''1.0''\<rparr>"
  have parse: "url_Parse ?lib (baseURL ?g @ ''/api/v1/search/roles/'') = None"
    by (simp add: refusing_def)
  have new: "\<And>req. http_NewRequestWithContext ?lib req = None"
    by (simp add: refusing_def)
  have "\<forall>err. client_Do ?lib
            \<lparr>Method = ''GET'', rawURL = baseURL ?g @ ''/api/v1/search/roles/'',
             params = [(''keywords'', if Source ?fork \<noteq> [] then Source ?fork else Name ?fork)],
             Header = [(''User-Agent'', ''ansible-requirements-lint''),
                       (''Accept'', ''application/json'')]\<rparr> = Inl err \<longrightarrow>
          VersionsForRole ?lib ?g ?fork = Inl err"
    using keywords_source_else_name [OF parse refl new, of ?fork] by blast
  then have a: "VersionsForRole ?lib ?g ?fork = Inl (LibraryError ''git.example.org/fork.nginx'')"
    by (simp add: refusing_def)
  have "\<forall>err. client_Do ?lib
            \<lparr>Method = ''GET'', rawURL = baseURL ?g @ ''/api/v1/search/roles/'',
             params = [(''keywords'', if Source ?plain \<noteq> [] then Source ?plain else Name ?plain)],
             Header = [(''User-Agent'', ''ansible-requirements-lint''),
                       (''Accept'', ''application/json'')]\<rparr> = Inl err \<longrightarrow>
          VersionsForRole ?lib ?g ?plain = Inl err"
    using keywords_source_else_name [OF parse refl new, of ?plain] by blast
  then have b: "VersionsForRole ?lib ?g ?plain = Inl (LibraryError ''ns.role'')"
    by (simp add: refusing_def)
  from a b show ?thesis
    by simp
qed

text \<open>
  Claim C2, as stated: a keyword without the separator has the empty namespace. It does
  not: the keyword \<open>nginx\<close> has no dot and its namespace is \<open>nginx\<close>, so that of two
  entries with the namespaces \<open>\<close> (empty) and \<open>nginx\<close> the second one is chosen.
\<close>

theorem namespace_without_separator_counterexample:
  "CHR ''.'' \<notin> set ''nginx'' \<and>
   namespace_of ''nginx'' = ''nginx'' \<and>
   namespace_of ''nginx'' \<noteq> [] \<and>
   VersionsForRole (registry 200 [entry [] [''a''], entry ''nginx'' [''b'']])
       (NewAnsibleGalaxy []) (role ''nginx'' ''a'') = Inr [''b'']"
  by (simp add: VersionsForRole_registry best_match_def namespace_of_takeWhile
        keywords_of_def)

text \<open>
  Claim C2, amended. The expected namespace is the first segment of the keyword split at
  the dots, that is the keyword up to its first dot; a keyword without a dot is its own
  namespace.
\<close>

theorem namespace_first_segment:
  "(\<exists>rest. strings_Split k (CHR ''.'') = namespace_of k # rest) \<and>
   namespace_of k = takeWhile (\<lambda>c. c \<noteq> CHR ''.'') k \<and>
   (CHR ''.'' \<notin> set k \<longrightarrow> namespace_of k = k)"
proof (intro conjI impI)
  show "\<exists>rest. strings_Split k (CHR ''.'') = namespace_of k # rest"
    using strings_Split_takeWhile [of k "CHR ''.''"]
    by (simp add: namespace_of_takeWhile)
  show "namespace_of k = takeWhile (\<lambda>c. c \<noteq> CHR ''.'') k"
    by (rule namespace_of_takeWhile)
  assume "CHR ''.'' \<notin> set k"
  then have "\<forall>c \<in> set k. c \<noteq> CHR ''.''"
    by blast
  then show "namespace_of k = k"
    by (simp add: namespace_of_takeWhile)
qed

theorem namespace_first_segment_witness:
  "CHR ''.'' \<notin> set ''nginx'' \<and> namespace_of ''nginx'' = ''nginx'' \<and>
   namespace_of ''ns.role.more'' = ''ns'' \<and>
   (\<exists>rest. strings_Split ''ns.role.more'' (CHR ''.'') = ''ns'' # rest)"
proof -
  have dot: "CHR ''.'' \<notin> set ''nginx''"
    by simp
  note nginx = namespace_first_segment [of "''nginx''"]
  note more = namespace_first_segment [of "''ns.role.more''"]
  have a: "namespace_of ''nginx'' = ''nginx''"
    using nginx [THEN conjunct2, THEN conjunct2] dot by (rule mp)
  have "namespace_of ''ns.role.more'' = takeWhile (\<lambda>c. c \<noteq> CHR ''.'') ''ns.role.more''"
    using more [THEN conjunct2, THEN conjunct1] .
  then have b: "namespace_of ''ns.role.more'' = ''ns''"
    by simp
  have c: "\<exists>rest. strings_Split ''ns.role.more'' (CHR ''.'') = ''ns'' # rest"
    using more [THEN conjunct1] unfolding b .
  from dot a b c show ?thesis
    by (intro conjI)
qed

subsection \<open>The choice of the entry\<close>

text \<open>
  Claim C3. When the registry returns exactly one entry, this entry is the match and its
  versions are returned, whatever its namespace.
\<close>

theorem single_entry_selected:
  assumes "fetch_results lib g r = Inr res"
    and "Results res = [e]"
  shows "best_match (Results res) (namespace_of (keywords_of r)) = Some e \<and>
         VersionsForRole lib g r = Inr (map version_Name (Versions (SummaryFields e)))"
  using assms
  by (simp add: VersionsForRole_def best_match_def version_names_map)

theorem single_entry_selected_witness:
  "namespace_Name (Namespace (SummaryFields (entry ''other'' [''v2'', ''v1'']))) \<noteq>
     namespace_of (keywords_of (role ''ns.role'' ''v1'')) \<and>
   VersionsForRole (registry 200 [entry ''other'' [''v2'', ''v1'']])
       (NewAnsibleGalaxy []) (role ''ns.role'' ''v1'') = Inr [''v2'', ''v1'']"
proof -
  have "VersionsForRole (registry 200 [entry ''other'' [''v2'', ''v1'']])
          (NewAnsibleGalaxy []) (role ''ns.role'' ''v1'') =
        Inr (map version_Name (Versions (SummaryFields (entry ''other'' [''v2'', ''v1'']))))"
    using single_entry_selected
            [OF fetch_results_registry,
             where e = "entry ''other'' [''v2'', ''v1'']" and g = "NewAnsibleGalaxy []"
               and r = "role ''ns.role'' ''v1''" and code1 = 200
               and rs1 = "[entry ''other'' [''v2'', ''v1'']]"]
    by simp
  then show ?thesis
    by (simp add: namespace_of_takeWhile keywords_of_def)
qed

text \<open>
  Claim C4. When the number of entries is not one, the match is the first entry, in the
  order of the answer, whose namespace equals the expected one as a string: the entry
  at an index \<open>i\<close> such that no entry before it has the expected namespace. Its versions
  are returned.
\<close>

theorem first_namespace_match_selected:
  assumes "fetch_results lib g r = Inr res"
    and "length (Results res) \<noteq> 1"
    and "i < length (Results res)"
    and "namespace_Name (Namespace (SummaryFields (Results res ! i))) =
           namespace_of (keywords_of r)"
    and "\<forall>j<i. namespace_Name (Namespace (SummaryFields (Results res ! j))) \<noteq>
           namespace_of (keywords_of r)"
  shows "best_match (Results res) (namespace_of (keywords_of r)) = Some (Results res ! i) \<and>
         VersionsForRole lib g r =
           Inr (map version_Name (Versions (SummaryFields (Results res ! i))))"
proof -
  have "scan_namespace (Results res) (namespace_of (keywords_of r)) = Some (Results res ! i)"
    using assms(3-5) by (rule scan_namespace_first)
  then have "best_match (Results res) (namespace_of (keywords_of r)) = Some (Results res ! i)"
    using assms(2) by (simp add: best_match_def)
  then show ?thesis
    using assms(1) by (simp add: VersionsForRole_def version_names_map)
qed

theorem first_namespace_match_selected_witness:
  "length [entry ''other'' [''x''], entry ''ns'' [''v1.1.0'', ''v1.0.0'']] \<noteq> 1 \<and>
   namespace_of (keywords_of (role ''ns.role'' ''v1.0.0'')) = ''ns'' \<and>
   VersionsForRole (registry 200 [entry ''other'' [''x''], entry ''ns'' [''v1.1.0'', ''v1.0.0'']])
       (NewAnsibleGalaxy []) (role ''ns.role'' ''v1.0.0'') = Inr [''v1.1.0'', ''v1.0.0'']"
proof -
  let ?rs = "[entry ''other'' [''x''], entry ''ns'' [''v1.1.0'', ''v1.0.0'']]"
  let ?res = "\<lparr>Count = int (length ?rs), Results = ?rs\<rparr>"
  let ?r = "role ''ns.role'' ''v1.0.0''"
  have ns: "namespace_of (keywords_of ?r) = ''ns''"
    by (simp add: namespace_of_takeWhile keywords_of_def)
  have fetch: "fetch_results (registry 200 ?rs) (NewAnsibleGalaxy []) ?r = Inr ?res"
    by (rule fetch_results_registry)
  have len: "length (Results ?res) \<noteq> 1"
    by simp
  have idx: "1 < length (Results ?res)"
    by simp
  have hit: "namespace_Name (Namespace (SummaryFields (Results ?res ! 1))) =
               namespace_of (keywords_of ?r)"
    by (simp add: ns)
  have before: "\<forall>j<1. namespace_Name (Namespace (SummaryFields (Results ?res ! j))) \<noteq>
               namespace_of (keywords_of ?r)"
    by (simp add: ns)
  have "VersionsForRole (registry 200 ?rs) (NewAnsibleGalaxy []) ?r =
          Inr (map version_Name (Versions (SummaryFields (Results ?res ! 1))))"
    using first_namespace_match_selected [OF fetch len idx hit before] by (rule conjunct2)
  then have "VersionsForRole (registry 200 ?rs) (NewAnsibleGalaxy []) ?r =
          Inr [''v1.1.0'', ''v1.0.0'']"
    by simp
  with ns show ?thesis
    by simp
qed

text \<open>
  Claim C5. When the registry returns no entry, or several entries none of which has the
  expected namespace, nothing is matched: \<^verbatim>\<open>VersionsForRole\<close> returns its error of
  line 128, the resolver's result for the role is \<open>Unresolved\<close> with no latest version,
  and the roles after it are resolved as before.
\<close>

theorem no_match_is_error_and_unresolved:
  assumes "fetch_results lib g r = Inr res"
    and "Results res = [] \<or>
         (length (Results res) > 1 \<and>
          (\<forall>e \<in> set (Results res).
             namespace_Name (Namespace (SummaryFields e)) \<noteq> namespace_of (keywords_of r)))"
  shows "best_match (Results res) (namespace_of (keywords_of r)) = None \<and>
         VersionsForRole lib g r = Inl (UnableToFindRole (keywords_of r)) \<and>
         resolve lib g r = \<lparr>reference = r, latestVersion = None, status = Unresolved\<rparr> \<and>
         resolve_all lib g (r # rest) =
           \<lparr>reference = r, latestVersion = None, status = Unresolved\<rparr> # resolve_all lib g rest"
proof -
  have none: "best_match (Results res) (namespace_of (keywords_of r)) = None"
    using assms(2)
  proof
    assume "Results res = []"
    then show ?thesis by (simp add: best_match_def)
  next
    assume many: "length (Results res) > 1 \<and>
          (\<forall>e \<in> set (Results res).
             namespace_Name (Namespace (SummaryFields e)) \<noteq> namespace_of (keywords_of r))"
    then have "scan_namespace (Results res) (namespace_of (keywords_of r)) = None"
      by (simp add: scan_namespace_none)
    with many show ?thesis by (simp add: best_match_def)
  qed
  have err: "VersionsForRole lib g r = Inl (UnableToFindRole (keywords_of r))"
    using assms(1) none by (simp add: VersionsForRole_def)
  have res: "resolve lib g r = \<lparr>reference = r, latestVersion = None, status = Unresolved\<rparr>"
    using err by (simp add: resolve_def)
  from none err res show ?thesis by simp
qed

theorem no_match_is_error_and_unresolved_witness:
  "VersionsForRole (registry 200 []) (NewAnsibleGalaxy []) (role ''ghost.role'' ''v1'') =
     Inl (UnableToFindRole ''ghost.role'') \<and>
   status (resolve (registry 200 []) (NewAnsibleGalaxy []) (role ''ghost.role'' ''v1'')) =
     Unresolved \<and>
   VersionsForRole (registry 200 [entry ''other'' [''v2''], entry ''third'' [''v3'']])
       (NewAnsibleGalaxy []) (role ''ns.role'' ''v1'') =
     Inl (UnableToFindRole ''ns.role'') \<and>
   resolve_all (registry 200 [entry ''other'' [''v2''], entry ''third'' [''v3'']])
       (NewAnsibleGalaxy []) [role ''ns.role'' ''v1''] =
     [\<lparr>reference = role ''ns.role'' ''v1'', latestVersion = None, status = Unresolved\<rparr>]"
proof -
  let ?g = "NewAnsibleGalaxy []"
  let ?rs = "[entry ''other'' [''v2''], entry ''third'' [''v3'']]"
  let ?r = "role ''ns.role'' ''v1''"
  have ns: "namespace_of (keywords_of ?r) = ''ns''"
    by (simp add: namespace_of_takeWhile keywords_of_def)
  have zero: "Results \<lparr>Count = int (length ([]::galaxyResult list)), Results = []\<rparr> = [] \<or>
      (length (Results \<lparr>Count = int (length ([]::galaxyResult list)), Results = []\<rparr>) > 1 \<and>
       (\<forall>e \<in> set (Results \<lparr>Count = int (length ([]::galaxyResult list)), Results = []\<rparr>).
          namespace_Name (Namespace (SummaryFields e)) \<noteq>
            namespace_of (keywords_of (role ''ghost.role'' ''v1''))))"
    by simp
  have many: "Results \<lparr>Count = int (length ?rs), Results = ?rs\<rparr> = [] \<or>
      (length (Results \<lparr>Count = int (length ?rs), Results = ?rs\<rparr>) > 1 \<and>
       (\<forall>e \<in> set (Results \<lparr>Count = int (length ?rs), Results = ?rs\<rparr>).
          namespace_Name (Namespace (SummaryFields e)) \<noteq> namespace_of (keywords_of ?r)))"
    by (simp add: ns)
  have fetch0: "fetch_results (registry 200 []) ?g (role ''ghost.role'' ''v1'') =
      Inr \<lparr>Count = int (length ([]::galaxyResult list)), Results = []\<rparr>"
    by (rule fetch_results_registry)
  have fetch2: "fetch_results (registry 200 ?rs) ?g ?r =
      Inr \<lparr>Count = int (length ?rs), Results = ?rs\<rparr>"
    by (rule fetch_results_registry)
  note a = no_match_is_error_and_unresolved [OF fetch0 zero, where rest = "[]"]
  note b = no_match_is_error_and_unresolved [OF fetch2 many, where rest = "[]"]
  have k1: "keywords_of (role ''ghost.role'' ''v1'') = ''ghost.role''"
    by (simp add: keywords_of_def)
  have k2: "keywords_of ?r = ''ns.role''"
    by (simp add: keywords_of_def)
  from a b show ?thesis
    by (simp add: k1 k2)
qed

subsection \<open>The version list\<close>

text \<open>
  Claim C7. A lookup that succeeds returns the version names of the matched entry, one
  for each version and in the order of the answer: nothing is sorted, dropped, merged
  or rewritten. The first name of the list is the latest version of the resolver.
\<close>

theorem versions_in_registry_order:
  assumes "VersionsForRole lib g r = Inr vs"
  shows "\<exists>res e. fetch_results lib g r = Inr res \<and>
           best_match (Results res) (namespace_of (keywords_of r)) = Some e \<and>
           vs = map version_Name (Versions (SummaryFields e)) \<and>
           length vs = length (Versions (SummaryFields e)) \<and>
           (vs \<noteq> [] \<longrightarrow> latestVersion (resolve lib g r) = Some (vs ! 0))"
proof -
  obtain res where fetch: "fetch_results lib g r = Inr res"
    using assms by (cases "fetch_results lib g r") (simp_all add: VersionsForRole_def)
  obtain e where best: "best_match (Results res) (namespace_of (keywords_of r)) = Some e"
    using assms fetch
    by (cases "best_match (Results res) (namespace_of (keywords_of r))")
       (simp_all add: VersionsForRole_def)
  have vs: "vs = map version_Name (Versions (SummaryFields e))"
    using assms fetch best by (simp add: VersionsForRole_def version_names_map)
  have latest: "vs \<noteq> [] \<longrightarrow> latestVersion (resolve lib g r) = Some (vs ! 0)"
    using assms by (cases vs) (simp_all add: resolve_def)
  from fetch best vs latest show ?thesis
    by simp
qed

theorem versions_in_registry_order_witness:
  "VersionsForRole (registry 200 [entry ''ns'' [''v1.0.0'', ''v1.1.0'', ''1.0.0'', ''v1.1.0'']])
       (NewAnsibleGalaxy []) (role ''ns.role'' ''v1.0.0'') =
     Inr [''v1.0.0'', ''v1.1.0'', ''1.0.0'', ''v1.1.0''] \<and>
   latestVersion (resolve (registry 200 [entry ''ns'' [''v1.0.0'', ''v1.1.0'', ''1.0.0'', ''v1.1.0'']])
       (NewAnsibleGalaxy []) (role ''ns.role'' ''v1.0.0'')) = Some ''v1.0.0''"
proof -
  let ?lib = "registry 200 [entry ''ns'' [''v1.0.0'', ''v1.1.0'', ''1.0.0'', ''v1.1.0'']]"
  let ?g = "NewAnsibleGalaxy []"
  let ?r = "role ''ns.role'' ''v1.0.0''"
  have run: "VersionsForRole ?lib ?g ?r = Inr [''v1.0.0'', ''v1.1.0'', ''1.0.0'', ''v1.1.0'']"
    by (simp add: VersionsForRole_registry best_match_def)
  let ?vs = "[''v1.0.0'', ''v1.1.0'', ''1.0.0'', ''v1.1.0'']"
  from versions_in_registry_order [OF run]
  obtain res e where "?vs \<noteq> [] \<longrightarrow> latestVersion (resolve ?lib ?g ?r) = Some (?vs ! 0)"
    by (elim exE conjE)
  then have "latestVersion (resolve ?lib ?g ?r) = Some ''v1.0.0''"
    by simp
  with run show ?thesis
    by simp
qed

text \<open>
  Claim C10. When the matched entry has no version, \<^verbatim>\<open>VersionsForRole\<close> returns the
  empty list and no error.
\<close>

theorem empty_version_list_is_no_error:
  assumes "fetch_results lib g r = Inr res"
    and "best_match (Results res) (namespace_of (keywords_of r)) = Some e"
    and "Versions (SummaryFields e) = []"
  shows "VersionsForRole lib g r = Inr []"
  using assms
  by (simp add: VersionsForRole_def version_names_map)

theorem empty_version_list_is_no_error_witness:
  "best_match [entry ''ns'' []] (namespace_of (keywords_of (role ''ns.role'' ''v1.0.0''))) =
     Some (entry ''ns'' []) \<and>
   Versions (SummaryFields (entry ''ns'' [])) = [] \<and>
   VersionsForRole (registry 200 [entry ''ns'' []]) (NewAnsibleGalaxy [])
       (role ''ns.role'' ''v1.0.0'') = Inr []"
proof -
  let ?rs = "[entry ''ns'' []]"
  let ?g = "NewAnsibleGalaxy []"
  let ?r = "role ''ns.role'' ''v1.0.0''"
  have fetch: "fetch_results (registry 200 ?rs) ?g ?r =
      Inr \<lparr>Count = int (length ?rs), Results = ?rs\<rparr>"
    by (rule fetch_results_registry)
  have best: "best_match (Results \<lparr>Count = int (length ?rs), Results = ?rs\<rparr>)
      (namespace_of (keywords_of ?r)) = Some (entry ''ns'' [])"
    by (simp add: best_match_def)
  have empty: "Versions (SummaryFields (entry ''ns'' [])) = []"
    by (simp add: entry_def)
  have "VersionsForRole (registry 200 ?rs) ?g ?r = Inr []"
    using fetch best empty by (rule empty_version_list_is_no_error)
  with best empty show ?thesis
    by simp
qed

subsection \<open>The resolver's results\<close>

text \<open>
  Claim C8. A result of \<open>resolve\<close> with the status \<open>Outdated\<close> has a latest version,
  which is not the declared version of its role; a result with the status
  \<open>Unresolved\<close> has no latest version.
\<close>

theorem resolve_result_invariant:
  "(status (resolve lib g r) = Outdated \<longrightarrow>
      (\<exists>v. latestVersion (resolve lib g r) = Some v \<and>
           v \<noteq> Version (reference (resolve lib g r)))) \<and>
   (status (resolve lib g r) = Unresolved \<longrightarrow> latestVersion (resolve lib g r) = None)"
proof (cases "VersionsForRole lib g r")
  case (Inl err)
  then show ?thesis by (simp add: resolve_def)
next
  case (Inr vs)
  then show ?thesis by (cases vs) (simp_all add: resolve_def)
qed

theorem resolve_result_invariant_witness:
  "status (resolve (registry 200 [entry ''ns'' [''v1.1.0'', ''v1.0.0'']])
             (NewAnsibleGalaxy []) (role ''ns.role'' ''v1.0.0'')) = Outdated \<and>
   latestVersion (resolve (registry 200 [entry ''ns'' [''v1.1.0'', ''v1.0.0'']])
             (NewAnsibleGalaxy []) (role ''ns.role'' ''v1.0.0'')) = Some ''v1.1.0'' \<and>
   status (resolve (registry 200 []) (NewAnsibleGalaxy []) (role ''ghost.role'' ''v1'')) =
     Unresolved \<and>
   latestVersion (resolve (registry 200 []) (NewAnsibleGalaxy []) (role ''ghost.role'' ''v1'')) =
     None"
proof -
  let ?g = "NewAnsibleGalaxy []"
  let ?a = "resolve (registry 200 [entry ''ns'' [''v1.1.0'', ''v1.0.0'']]) ?g
              (role ''ns.role'' ''v1.0.0'')"
  let ?b = "resolve (registry 200 []) ?g (role ''ghost.role'' ''v1'')"
  have a: "?a = \<lparr>reference = role ''ns.role'' ''v1.0.0'', latestVersion = Some ''v1.1.0'',
                 status = Outdated\<rparr>"
    by (simp add: resolve_def VersionsForRole_registry best_match_def)
  have sa: "status ?a = Outdated"
    by (simp add: a)
  have sb: "status ?b = Unresolved"
    by (simp add: resolve_def VersionsForRole_registry best_match_def)
  have "latestVersion ?b = None"
    using resolve_result_invariant
            [where lib = "registry 200 []" and g = ?g and r = "role ''ghost.role'' ''v1''"] sb
    by blast
  moreover have "\<exists>v. latestVersion ?a = Some v \<and> v \<noteq> Version (reference ?a)"
    using resolve_result_invariant
            [where lib = "registry 200 [entry ''ns'' [''v1.1.0'', ''v1.0.0'']]" and g = ?g
               and r = "role ''ns.role'' ''v1.0.0''"] sa
    by blast
  ultimately show ?thesis
    using sa sb by (simp add: a)
qed

subsection \<open>The base URL\<close>

text \<open>
  Claim C9. A client built with the empty string has the base URL
  \<^verbatim>\<open>https://galaxy.ansible.com\<close>, and a client built with another string has this
  string. Every lookup made with the client uses this value: the string it gives to
  \<^verbatim>\<open>url.Parse\<close>, and from which the URL of the request handed to \<^verbatim>\<open>client.Do\<close>
  is made, is the base URL followed by the path of the search.
\<close>

theorem base_url_default_or_given:
  "baseURL (NewAnsibleGalaxy u) = (if u = [] then ''https://galaxy.ansible.com'' else u) \<and>
   DefaultAnsibleGalaxyURL = ''https://galaxy.ansible.com'' \<and>
   (\<forall>err.
      url_Parse lib
         ((if u = [] then ''https://galaxy.ansible.com'' else u) @ ''/api/v1/search/roles/'') =
        Some err \<longrightarrow>
      VersionsForRole lib (NewAnsibleGalaxy u) r = Inl err) \<and>
   (url_Parse lib
       ((if u = [] then ''https://galaxy.ansible.com'' else u) @ ''/api/v1/search/roles/'') =
      None \<longrightarrow>
    http_NewRequestWithContext lib
       \<lparr>Method = ''GET'',
        rawURL = (if u = [] then ''https://galaxy.ansible.com'' else u) @ ''/api/v1/search/roles/'',
        params = [(''keywords'', keywords_of r)],
        Header = [(''User-Agent'', ''ansible-requirements-lint''),
                  (''Accept'', ''application/json'')]\<rparr> = None \<longrightarrow>
    fetch_results lib (NewAnsibleGalaxy u) r =
      (case client_Do lib
              \<lparr>Method = ''GET'',
               rawURL = (if u = [] then ''https://galaxy.ansible.com'' else u) @
                          ''/api/v1/search/roles/'',
               params = [(''keywords'', keywords_of r)],
               Header = [(''User-Agent'', ''ansible-requirements-lint''),
                         (''Accept'', ''application/json'')]\<rparr> of
         Inl err \<Rightarrow> Inl err
       | Inr resp \<Rightarrow>
           (case Body resp of
              Inl err \<Rightarrow> Inl err
            | Inr body \<Rightarrow> json_Unmarshal lib body)))"
proof -
  let ?base = "if u = [] then ''https://galaxy.ansible.com'' else u"
  have base: "baseURL (NewAnsibleGalaxy u) = ?base"
    by (simp add: NewAnsibleGalaxy_def DefaultAnsibleGalaxyURL_def)
  have default: "DefaultAnsibleGalaxyURL = ''https://galaxy.ansible.com''"
    by (simp add: DefaultAnsibleGalaxyURL_def)
  have req: "search_request (NewAnsibleGalaxy u) r =
      \<lparr>Method = ''GET'', rawURL = ?base @ ''/api/v1/search/roles/'',
       params = [(''keywords'', keywords_of r)],
       Header = [(''User-Agent'', ''ansible-requirements-lint''),
                 (''Accept'', ''application/json'')]\<rparr>"
    unfolding search_request_def base by (rule refl)
  have parse_error: "\<forall>err. url_Parse lib (?base @ ''/api/v1/search/roles/'') = Some err \<longrightarrow>
      VersionsForRole lib (NewAnsibleGalaxy u) r = Inl err"
  proof (intro allI impI)
    fix err
    assume "url_Parse lib (?base @ ''/api/v1/search/roles/'') = Some err"
    then have "url_Parse lib (baseURL (NewAnsibleGalaxy u) @ ''/api/v1/search/roles/'') = Some err"
      unfolding base .
    then have "fetch_results lib (NewAnsibleGalaxy u) r = Inl err"
      by (rule fetch_results_url_Parse_error)
    then show "VersionsForRole lib (NewAnsibleGalaxy u) r = Inl err"
      by (simp add: VersionsForRole_def)
  qed
  have sent: "url_Parse lib (?base @ ''/api/v1/search/roles/'') = None \<longrightarrow>
    http_NewRequestWithContext lib
       \<lparr>Method = ''GET'', rawURL = ?base @ ''/api/v1/search/roles/'',
        params = [(''keywords'', keywords_of r)],
        Header = [(''User-Agent'', ''ansible-requirements-lint''),
                  (''Accept'', ''application/json'')]\<rparr> = None \<longrightarrow>
    fetch_results lib (NewAnsibleGalaxy u) r =
      (case client_Do lib
              \<lparr>Method = ''GET'', rawURL = ?base @ ''/api/v1/search/roles/'',
               params = [(''keywords'', keywords_of r)],
               Header = [(''User-Agent'', ''ansible-requirements-lint''),
                         (''Accept'', ''application/json'')]\<rparr> of
         Inl err \<Rightarrow> Inl err
       | Inr resp \<Rightarrow>
           (case Body resp of
              Inl err \<Rightarrow> Inl err
            | Inr body \<Rightarrow> json_Unmarshal lib body))"
  proof (intro impI)
    assume "url_Parse lib (?base @ ''/api/v1/search/roles/'') = None"
    then have parse: "url_Parse lib (baseURL (NewAnsibleGalaxy u) @ ''/api/v1/search/roles/'') = None"
      unfolding base .
    assume "http_NewRequestWithContext lib
       \<lparr>Method = ''GET'', rawURL = ?base @ ''/api/v1/search/roles/'',
        params = [(''keywords'', keywords_of r)],
        Header = [(''User-Agent'', ''ansible-requirements-lint''),
                  (''Accept'', ''application/json'')]\<rparr> = None"
    then have new: "http_NewRequestWithContext lib (search_request (NewAnsibleGalaxy u) r) = None"
      unfolding req .
    show "fetch_results lib (NewAnsibleGalaxy u) r =
      (case client_Do lib
              \<lparr>Method = ''GET'', rawURL = ?base @ ''/api/v1/search/roles/'',
               params = [(''keywords'', keywords_of r)],
               Header = [(''User-Agent'', ''ansible-requirements-lint''),
                         (''Accept'', ''application/json'')]\<rparr> of
         Inl err \<Rightarrow> Inl err
       | Inr resp \<Rightarrow>
           (case Body resp of
              Inl err \<Rightarrow> Inl err
            | Inr body \<Rightarrow> json_Unmarshal lib body))"
      using fetch_results_client_Do [OF parse new] unfolding req .
  qed
  from base default parse_error sent show ?thesis
    by (intro conjI)
qed

theorem base_url_default_or_given_witness:
  "baseURL (NewAnsibleGalaxy []) = ''https://galaxy.ansible.com'' \<and>
   baseURL (NewAnsibleGalaxy ''http://localhost:8080'') = ''http://localhost:8080'' \<and>
   fetch_results (refusing rawURL) (NewAnsibleGalaxy []) (role ''ns.role'' ''v1'') =
     Inl (LibraryError ''https://galaxy.ansible.com/api/v1/search/roles/'') \<and>
   fetch_results (refusing rawURL) (NewAnsibleGalaxy ''http://localhost:8080'')
       (role ''ns.role'' ''v1'') =
     Inl (LibraryError ''http://localhost:8080/api/v1/search/roles/'')"
proof -
  let ?r = "role ''ns.role'' ''v1''"
  note default = base_url_default_or_given [where u = "[]" and lib = "refusing rawURL" and r = ?r]
  note given = base_url_default_or_given
                 [where u = "''http://localhost:8080''" and lib = "refusing rawURL" and r = ?r]
  have a: "baseURL (NewAnsibleGalaxy []) = ''https://galaxy.ansible.com''"
    using default [THEN conjunct1] by simp
  have b: "baseURL (NewAnsibleGalaxy ''http://localhost:8080'') = ''http://localhost:8080''"
    using given [THEN conjunct1] by simp
  have c: "fetch_results (refusing rawURL) (NewAnsibleGalaxy []) ?r =
     Inl (LibraryError ''https://galaxy.ansible.com/api/v1/search/roles/'')"
    using default [THEN conjunct2, THEN conjunct2, THEN conjunct2]
    by (simp add: refusing_def)
  have d: "fetch_results (refusing rawURL) (NewAnsibleGalaxy ''http://localhost:8080'') ?r =
     Inl (LibraryError ''http://localhost:8080/api/v1/search/roles/'')"
    using given [THEN conjunct2, THEN conjunct2, THEN conjunct2]
    by (simp add: refusing_def)
  from a b c d show ?thesis
    by (intro conjI)
qed

end
